theory Spec2Isabelle
  imports Complex_Main
begin

section \<open>Python values and built-ins used by the preprocessing scripts\<close>

text \<open>
  A Python string is a list of code points. A \<^typ>\<open>char\<close> is one code point below 256, so
  \<^const>\<open>length\<close> is Python's \<open>len\<close> and \<^const>\<open>take\<close> is a slice \<open>s[:n]\<close> on this
  fragment.

  Exceptions are values: a function of the scripts that can raise returns
  \<open>py_error + 'a\<close>, with \<^const>\<open>Inl\<close> for the exception.
\<close>

datatype py_error = ValueError | TypeError | IndexError

text \<open>
  A cell of a text column read by \<open>pd.read_csv\<close>: a string, or NaN where the field is
  missing.
\<close>

datatype cell = NaN | Str string

text \<open>\<open>pd.isna\<close> on a cell, and \<open>str(cell)\<close>.\<close>

fun isna :: "cell \<Rightarrow> bool" where
  "isna NaN = True"
| "isna (Str s) = False"

fun py_str :: "cell \<Rightarrow> string" where
  "py_str NaN = ''nan''"
| "py_str (Str s) = s"

text \<open>
  \<open>series == value\<close>, element by element: NaN equals nothing, not even NaN.
\<close>

fun cell_eq :: "cell \<Rightarrow> cell \<Rightarrow> bool" where
  "cell_eq (Str a) (Str b) = (a = b)"
| "cell_eq a b = False"

text \<open>
  The characters \<open>str.split()\<close> and \<open>str.strip()\<close> treat as whitespace, among the code
  points below 256: tab to carriage return, the four separators 28 to 31, the space, NEL
  and the no-break space.
\<close>

definition is_space :: "char \<Rightarrow> bool" where
  "is_space c = (of_char c \<in> {9, 10, 11, 12, 13, 28, 29, 30, 31, 32, 133, 160 :: nat})"

definition py_strip :: "string \<Rightarrow> string" where
  "py_strip s = rev (dropWhile is_space (rev (dropWhile is_space s)))"

text \<open>
  \<open>s.split()\<close>: the maximal runs of non-whitespace, in order. \<open>cur\<close> is the run being read,
  reversed.
\<close>

fun split_ws :: "string \<Rightarrow> string \<Rightarrow> string list" where
  "split_ws cur [] = (if cur = [] then [] else [rev cur])"
| "split_ws cur (c # cs) =
     (if is_space c then (if cur = [] then split_ws [] cs else rev cur # split_ws [] cs)
      else split_ws (c # cur) cs)"

definition py_split :: "string \<Rightarrow> string list" where
  "py_split s = split_ws [] s"

text \<open>\<open>sep.join(xs)\<close> on a list of strings.\<close>

fun py_join :: "string \<Rightarrow> string list \<Rightarrow> string" where
  "py_join sep [] = []"
| "py_join sep [x] = x"
| "py_join sep (x # y # ys) = x @ sep @ py_join sep (y # ys)"

text \<open>\<open>s.split(d)\<close> for a one-character separator: empty pieces are kept.\<close>

fun py_split_on :: "char \<Rightarrow> string \<Rightarrow> string list" where
  "py_split_on d [] = [[]]"
| "py_split_on d (c # cs) =
     (if c = d then [] # py_split_on d cs
      else (case py_split_on d cs of
              [] \<Rightarrow> [[c]]
            | p # ps \<Rightarrow> (c # p) # ps))"

text \<open>
  \<open>int(s)\<close> on decimal numerals, for the inputs that are evaluated below: surrounding
  whitespace, an optional sign, digits with single underscores between them;
  \<^const>\<open>None\<close> where \<open>int\<close> raises \<open>ValueError\<close>. The whitespace \<open>int\<close> strips is
  narrower than that of \<open>str.strip()\<close>: the four separators 28 to 31 are not part of it.
  The limit on the number of digits of recent Python versions is left out.
\<close>

definition is_int_space :: "char \<Rightarrow> bool" where
  "is_int_space c = (of_char c \<in> {9, 10, 11, 12, 13, 32, 133, 160 :: nat})"

definition is_digit :: "char \<Rightarrow> bool" where
  "is_digit c = (48 \<le> (of_char c :: nat) \<and> (of_char c :: nat) \<le> 57)"

definition digit_val :: "char \<Rightarrow> nat" where
  "digit_val c = of_char c - 48"

fun parse_digits :: "nat \<Rightarrow> string \<Rightarrow> nat option" where
  "parse_digits acc [] = Some acc"
| "parse_digits acc [c] = (if is_digit c then Some (10 * acc + digit_val c) else None)"
| "parse_digits acc (c # d # ds) =
     (if is_digit c then parse_digits (10 * acc + digit_val c) (d # ds)
      else if c = CHR ''_'' \<and> is_digit d then parse_digits (10 * acc + digit_val d) ds
      else None)"

definition parse_unsigned :: "string \<Rightarrow> nat option" where
  "parse_unsigned s =
     (case s of
        [] \<Rightarrow> None
      | c # cs \<Rightarrow> if is_digit c then parse_digits (digit_val c) cs else None)"

definition py_int :: "string \<Rightarrow> int option" where
  "py_int s =
     (case rev (dropWhile is_int_space (rev (dropWhile is_int_space s))) of
        [] \<Rightarrow> None
      | c # cs \<Rightarrow>
          if c = CHR ''-'' then map_option (\<lambda>n. - int n) (parse_unsigned cs)
          else if c = CHR ''+'' then map_option int (parse_unsigned cs)
          else map_option int (parse_unsigned (c # cs)))"

text \<open>
  An item of a parsed list is a scalar: a string, a number or None. Nested lists and
  other objects are outside the modelled fragment. What \<open>ast.literal_eval\<close> returns is a
  list of scalars, or another value, given by its \<open>str\<close>.
\<close>

datatype scalar = SNone | SStr string | SNum int

datatype literal = LitList "scalar list" | LitOther string

text \<open>
  The built-ins and library functions whose result the scripts depend on are not code
  of the repository. They are the fields of a parameter \<open>lib\<close>:
  \<^item> \<open>lib_int\<close> is \<open>int(s)\<close>, \<^const>\<open>None\<close> where it raises \<open>ValueError\<close>;
  \<^item> \<open>lib_div helpful total\<close> is the float \<open>helpful / total\<close> of two integers, a float
    being the rational number it denotes, and \<^const>\<open>None\<close> where the division raises
    \<open>OverflowError\<close>;
  \<^item> \<open>lib_literal_eval\<close> is \<open>ast.literal_eval\<close>, \<^const>\<open>None\<close> where it raises;
  \<^item> \<open>lib_empty_truth\<close> is the truth value of an empty NumPy array: false with a
    deprecation warning before NumPy 2.2, a \<open>ValueError\<close> since.
\<close>

record library =
  lib_int :: "string \<Rightarrow> int option"
  lib_div :: "int \<Rightarrow> int \<Rightarrow> rat option"
  lib_literal_eval :: "string \<Rightarrow> literal option"
  lib_empty_truth :: "py_error + bool"

text \<open>
  The library used where a concrete input is evaluated: \<^const>\<open>py_int\<close>, the exact
  quotient (the float Python returns when the quotient is a binary fraction of at most
  53 bits, as \<open>1/2\<close> and \<open>1\<close> are), a given \<open>literal_eval\<close>, and the older NumPy.
\<close>

definition exact_div :: "int \<Rightarrow> int \<Rightarrow> rat option" where
  "exact_div helpful total_votes = Some (of_int helpful / of_int total_votes)"

definition example_lib :: "(string \<Rightarrow> literal option) \<Rightarrow> library" where
  "example_lib literal_eval =
     \<lparr>lib_int = py_int, lib_div = exact_div, lib_literal_eval = literal_eval,
      lib_empty_truth = Inr False\<rparr>"

section \<open>Record Normalizer: \<open>clean_text\<close> and the helpfulness score\<close>

text \<open>\<open>clean_text\<close> of both scripts: NaN and the empty string give the empty string;
  anything else is stripped and its whitespace runs collapsed to one space.\<close>

definition clean_text :: "cell \<Rightarrow> string" where
  "clean_text text =
     (if isna text \<or> text = Str [] then []
      else py_join '' '' (py_split (py_strip (py_str text))))"

text \<open>
  The helpfulness score of one review in \<open>aggregate_reviews\<close> (the body of the
  \<open>iterrows\<close> loop of \<open>preprocess_data.py\<close>): the column starts at 0.0 and is overwritten
  only when the string holds a \<open>/\<close>, both parts parse, the total is positive and the
  division returns. A failing \<open>int\<close>, a missing part or an overflowing division is
  swallowed by the bare \<open>except\<close>.
\<close>

definition helpfulness_score :: "library \<Rightarrow> cell \<Rightarrow> rat" where
  "helpfulness_score lib h =
     (let help_str = py_str h in
      if CHR ''/'' \<in> set help_str then
        (case py_split_on (CHR ''/'') help_str of
           p0 # p1 # _ \<Rightarrow>
             (case lib_int lib p0 of
                None \<Rightarrow> 0
              | Some helpful \<Rightarrow>
                  (case lib_int lib p1 of
                     None \<Rightarrow> 0
                   | Some total_votes \<Rightarrow>
                       if total_votes > 0 then
                         (case lib_div lib helpful total_votes of
                            None \<Rightarrow> 0
                          | Some score \<Rightarrow> score)
                       else 0))
         | _ \<Rightarrow> 0)
      else 0)"

text \<open>\<open>parse_helpfulness\<close> of \<open>preprocess_data_optimized.py\<close>.\<close>

definition parse_helpfulness :: "library \<Rightarrow> cell \<Rightarrow> rat" where
  "parse_helpfulness lib h =
     (if isna h \<or> h = Str [] then 0
      else
        (let help_str = py_str h in
         if CHR ''/'' \<in> set help_str then
           (case py_split_on (CHR ''/'') help_str of
              p0 # p1 # _ \<Rightarrow>
                (case lib_int lib p0 of
                   None \<Rightarrow> 0
                 | Some helpful \<Rightarrow>
                     (case lib_int lib p1 of
                        None \<Rightarrow> 0
                      | Some total_votes \<Rightarrow>
                          if total_votes > 0 then
                            (case lib_div lib helpful total_votes of
                               None \<Rightarrow> 0
                             | Some score \<Rightarrow> score)
                          else 0))
            | _ \<Rightarrow> 0)
         else 0))"

text \<open>
  A helpfulness string is malformed when it has no \<open>/\<close>, or the numerator or the
  denominator (the first two pieces around \<open>/\<close>) is not an integer, or the denominator
  is 0.
\<close>

definition malformed :: "(string \<Rightarrow> int option) \<Rightarrow> string \<Rightarrow> bool" where
  "malformed pint s =
     (CHR ''/'' \<notin> set s
      \<or> pint (py_split_on (CHR ''/'') s ! 0) = None
      \<or> pint (py_split_on (CHR ''/'') s ! 1) = None
      \<or> pint (py_split_on (CHR ''/'') s ! 1) = Some 0)"

section \<open>Record Normalizer: \<open>safe_parse_list\<close>\<close>

text \<open>
  The values \<open>safe_parse_list\<close> is written for: a missing value (None or NaN), a string,
  or a list of scalars.
\<close>

datatype pyval = Missing | PStr string | PList "scalar list"

fun of_cell :: "cell \<Rightarrow> pyval" where
  "of_cell NaN = Missing"
| "of_cell (Str s) = PStr s"

text \<open>
  \<open>pd.isna(obj)\<close> answers a scalar with one boolean and a list with a boolean array, one
  entry per element. The \<open>or\<close> of \<open>safe_parse_list\<close> then asks for the truth value of
  that answer: an array of one element has its element's, an array of two or more raises
  \<open>ValueError\<close> (ambiguous truth value), and the empty array has the truth value \<open>on_empty\<close>
  of the NumPy at hand.
\<close>

datatype isna_result = Flag bool | Flags "bool list"

fun pd_isna :: "pyval \<Rightarrow> isna_result" where
  "pd_isna Missing = Flag True"
| "pd_isna (PStr s) = Flag False"
| "pd_isna (PList xs) = Flags (map (\<lambda>x. x = SNone) xs)"

fun truth :: "py_error + bool \<Rightarrow> isna_result \<Rightarrow> py_error + bool" where
  "truth on_empty (Flag b) = Inr b"
| "truth on_empty (Flags []) = on_empty"
| "truth on_empty (Flags [b]) = Inr b"
| "truth on_empty (Flags (b # c # bs)) = Inl ValueError"

text \<open>
  \<open>safe_parse_list\<close> of both scripts. The first test is outside the \<open>try\<close>, so what it
  raises reaches the caller. In the \<open>except\<close> branch \<open>str(val)\<close> of a string is the
  string itself; the branch of a missing value is never reached, as a missing value
  leaves at the first test.
\<close>

definition safe_parse_list :: "library \<Rightarrow> pyval \<Rightarrow> py_error + scalar list" where
  "safe_parse_list lib val =
     (case truth (lib_empty_truth lib) (pd_isna val) of
        Inl e \<Rightarrow> Inl e
      | Inr missing \<Rightarrow>
          if missing \<or> val = PStr [] then Inr []
          else
            (case val of
               PList xs \<Rightarrow> Inr xs
             | PStr s \<Rightarrow>
                 (case lib_literal_eval lib s of
                    Some (LitList parsed) \<Rightarrow> Inr parsed
                  | Some (LitOther parsed) \<Rightarrow> Inr [SStr parsed]
                  | None \<Rightarrow> Inr [SStr s])
             | Missing \<Rightarrow> Inr [SStr ''nan'']))"

section \<open>Record Normalizer: \<open>aggregate_reviews\<close>\<close>

text \<open>
  A row of \<open>Books_rating.csv\<close>: the columns \<open>Title\<close>, \<open>review/score\<close>,
  \<open>review/helpfulness\<close>, \<open>review/summary\<close> and \<open>review/text\<close>. A score is a number or
  missing (\<^const>\<open>None\<close>, pandas' NaN); numbers are exact rationals.
\<close>

record review =
  rv_Title :: cell
  rv_score :: "rat option"
  rv_helpfulness :: cell
  rv_summary :: cell
  rv_text :: cell

text \<open>The dictionary \<open>aggregate_reviews\<close> returns.\<close>

record aggregate =
  review_count :: nat
  avg_score :: "rat option"
  review_summary :: string
  top_reviews :: "string list"

text \<open>\<open>Series.mean()\<close>: the mean of the values present, NaN when there is none.\<close>

definition present :: "'a option list \<Rightarrow> 'a list" where
  "present xs = map the (filter (\<lambda>x. x \<noteq> None) xs)"

definition py_mean :: "rat option list \<Rightarrow> rat option" where
  "py_mean xs =
     (if present xs = [] then None
      else Some (sum_list (present xs) / of_nat (length (present xs))))"

text \<open>
  \<open>DataFrame.nlargest(n, column)\<close> with the default \<open>keep='first'\<close>: the rows in
  descending order of the column, rows of equal value in their original order, cut after
  \<open>n\<close>. \<^const>\<open>sort_key\<close> is a stable sort.
\<close>

definition nlargest :: "nat \<Rightarrow> ('a \<Rightarrow> rat) \<Rightarrow> 'a list \<Rightarrow> 'a list" where
  "nlargest n key xs = take n (sort_key (\<lambda>x. - key x) xs)"

text \<open>
  The second loop of \<open>aggregate_reviews\<close>, over the top reviews: \<open>review_texts\<close> grows by
  the cleaned summary when it is not empty, then by the first 200 characters of the
  cleaned text when that is not empty and shorter than 500.
\<close>

primrec collect_texts :: "string list \<Rightarrow> review list \<Rightarrow> string list" where
  "collect_texts review_texts [] = review_texts"
| "collect_texts review_texts (review # rest) =
     (let summary = clean_text (rv_summary review);
          text = clean_text (rv_text review);
          review_texts = (if summary \<noteq> [] then review_texts @ [summary] else review_texts);
          review_texts =
            (if text \<noteq> [] \<and> length text < 500 then review_texts @ [take 200 text]
             else review_texts)
      in collect_texts review_texts rest)"

definition aggregate_reviews ::
  "library \<Rightarrow> review list \<Rightarrow> cell \<Rightarrow> aggregate" where
  "aggregate_reviews lib reviews_df title =
     (let book_reviews = filter (\<lambda>r. cell_eq (rv_Title r) title) reviews_df in
      if length book_reviews = 0 then
        \<lparr>review_count = 0, avg_score = Some 0, review_summary = [], top_reviews = []\<rparr>
      else
        (let avg = py_mean (map rv_score book_reviews);
             scored = map (\<lambda>r. (r, helpfulness_score lib (rv_helpfulness r))) book_reviews;
             top = nlargest 3 snd scored;
             review_texts = collect_texts [] (map fst top)
         in \<lparr>review_count = length book_reviews,
             avg_score = avg,
             review_summary = py_join '' '' (take 5 review_texts),
             top_reviews = take 3 review_texts\<rparr>))"

section \<open>The row-at-a-time pipeline (\<open>preprocess_data.py\<close>)\<close>

text \<open>
  A row of \<open>books_data.csv\<close>: the columns \<open>Title\<close>, \<open>description\<close>, \<open>authors\<close> and
  \<open>categories\<close>. The columns that \<open>main\<close> only copies (image, links, publisher, dates,
  ratings count) are left out.
\<close>

record book =
  bk_Title :: cell
  bk_description :: cell
  bk_authors :: cell
  bk_categories :: cell

text \<open>
  A row of \<open>books_df\<close> once steps 3 and 4 of \<open>main\<close> have added their columns; the three
  review columns carry the prefix \<open>book_\<close>.
\<close>

record book_row =
  title_clean :: string
  description_clean :: string
  authors_parsed :: "scalar list"
  categories_parsed :: "scalar list"
  book_review_count :: nat
  book_avg_score :: "rat option"
  book_review_summary :: string

text \<open>A row of \<open>final_df\<close>, the CanonicalRecord.\<close>

record canonical =
  final_id :: nat
  final_title :: string
  final_description :: string
  final_authors :: "scalar list"
  final_categories :: "scalar list"
  final_review_count :: nat
  final_avg_rating :: "rat option"
  final_embedding_text :: string

text \<open>
  \<open>Series.apply\<close> and \<open>DataFrame.apply\<close>: the function is applied row by row and the
  first exception ends the run.
\<close>

fun apply_rows :: "('a \<Rightarrow> py_error + 'b) \<Rightarrow> 'a list \<Rightarrow> py_error + 'b list" where
  "apply_rows f [] = Inr []"
| "apply_rows f (x # xs) =
     (case f x of
        Inl e \<Rightarrow> Inl e
      | Inr y \<Rightarrow> (case apply_rows f xs of Inl e \<Rightarrow> Inl e | Inr ys \<Rightarrow> Inr (y # ys)))"

text \<open>
  Step 3 of \<open>main\<close> for one book, with the review columns of step 4 given as
  \<open>(review_count, avg_score, review_summary)\<close>.
\<close>

definition book_row_of ::
  "library \<Rightarrow> (cell \<Rightarrow> nat \<times> rat option \<times> string) \<Rightarrow> book
     \<Rightarrow> py_error + book_row" where
  "book_row_of lib review_data b =
     (case safe_parse_list lib (of_cell (bk_authors b)) of
        Inl e \<Rightarrow> Inl e
      | Inr a \<Rightarrow>
          (case safe_parse_list lib (of_cell (bk_categories b)) of
             Inl e \<Rightarrow> Inl e
           | Inr c \<Rightarrow>
               (case review_data (bk_Title b) of
                  (n, avg, summary) \<Rightarrow>
                    Inr \<lparr>title_clean = clean_text (bk_Title b),
                         description_clean = clean_text (bk_description b),
                         authors_parsed = a,
                         categories_parsed = c,
                         book_review_count = n,
                         book_avg_score = avg,
                         book_review_summary = summary\<rparr>)))"

text \<open>
  Step 4 of \<open>preprocess_data.py\<close>: a title that occurs in the reviews table is
  aggregated, any other gets the empty aggregate, as every title does when the reviews
  table is empty.
\<close>

definition review_data :: "library \<Rightarrow> review list \<Rightarrow> cell \<Rightarrow> nat \<times> rat option \<times> string" where
  "review_data lib reviews_df title =
     (let agg =
        (if reviews_df \<noteq> [] then
           (if title \<in> set (map rv_Title reviews_df) then aggregate_reviews lib reviews_df title
            else \<lparr>review_count = 0, avg_score = Some 0, review_summary = [], top_reviews = []\<rparr>)
         else \<lparr>review_count = 0, avg_score = Some 0, review_summary = [], top_reviews = []\<rparr>)
      in (review_count agg, avg_score agg, review_summary agg))"

text \<open>
  \<open>' '.join(xs)\<close> on a parsed list: every item must be a string, or \<open>join\<close> raises
  \<open>TypeError\<close>.
\<close>

fun str_items :: "scalar list \<Rightarrow> string list option" where
  "str_items [] = Some []"
| "str_items (SStr s # xs) = map_option ((#) s) (str_items xs)"
| "str_items (x # xs) = None"

definition join_items :: "scalar list \<Rightarrow> py_error + string" where
  "join_items xs =
     (case str_items xs of None \<Rightarrow> Inl TypeError | Some ss \<Rightarrow> Inr (py_join '' '' ss))"

text \<open>The statement \<open>if xs: parts.append(' '.join(xs))\<close>.\<close>

definition append_joined :: "scalar list \<Rightarrow> string list \<Rightarrow> py_error + string list" where
  "append_joined xs parts =
     (if xs \<noteq> [] then
        (case join_items xs of Inl e \<Rightarrow> Inl e | Inr joined \<Rightarrow> Inr (parts @ [joined]))
      else Inr parts)"

text \<open>\<open>create_embedding_text\<close> of \<open>preprocess_data.py\<close>: \<open>parts\<close> grows by appends.\<close>

definition create_embedding_text :: "book_row \<Rightarrow> py_error + string" where
  "create_embedding_text row =
     (let parts = [];
          parts = (if title_clean row \<noteq> [] then (parts @ [title_clean row]) @ [title_clean row]
                   else parts);
          parts = (if description_clean row \<noteq> [] then
                     ((parts @ [description_clean row]) @ [description_clean row])
                       @ [description_clean row]
                   else parts)
      in (case append_joined (authors_parsed row) parts of
            Inl e \<Rightarrow> Inl e
          | Inr parts \<Rightarrow>
              (case append_joined (categories_parsed row) parts of
                 Inl e \<Rightarrow> Inl e
               | Inr parts \<Rightarrow>
                   (let parts =
                      (if book_review_summary row \<noteq> [] then
                         (parts @ [book_review_summary row]) @ [book_review_summary row]
                       else parts)
                    in Inr (py_join '' '' parts)))))"

text \<open>Step 6: the boolean mask of the filter.\<close>

definition keep :: "book_row \<Rightarrow> bool" where
  "keep row =
     (title_clean row \<noteq> [] \<and> (description_clean row \<noteq> [] \<or> book_review_summary row \<noteq> []))"

text \<open>
  Step 7: \<open>final_df\<close> pairs \<open>range(len(books_df))\<close> with the columns of the filtered
  table, a row here being a \<open>books_df\<close> row with its \<open>embedding_text\<close>.
\<close>

definition final_row :: "nat \<Rightarrow> book_row \<times> string \<Rightarrow> canonical" where
  "final_row i r =
     \<lparr>final_id = i,
      final_title = title_clean (fst r),
      final_description = description_clean (fst r),
      final_authors = authors_parsed (fst r),
      final_categories = categories_parsed (fst r),
      final_review_count = book_review_count (fst r),
      final_avg_rating = book_avg_score (fst r),
      final_embedding_text = snd r\<rparr>"

definition final_df :: "(book_row \<times> string) list \<Rightarrow> canonical list" where
  "final_df books_df = map2 final_row [0..<length books_df] books_df"

text \<open>
  Steps 5 to 7, shared by the two scripts but for \<open>create_embedding_text\<close>. On a table
  without rows \<open>apply\<close> returns a frame, not a column, and the assignment to
  \<open>books_df['embedding_text']\<close> raises \<open>ValueError\<close>; on any other table the first
  exception of \<open>create_embedding_text\<close> ends the run.
\<close>

definition embed_filter_number ::
  "(book_row \<Rightarrow> py_error + string) \<Rightarrow> book_row list \<Rightarrow> py_error + canonical list" where
  "embed_filter_number embed_fn rows =
     (if rows = [] then Inl ValueError
      else
        (case apply_rows embed_fn rows of
           Inl e \<Rightarrow> Inl e
         | Inr texts \<Rightarrow> Inr (final_df (filter (\<lambda>r. keep (fst r)) (zip rows texts)))))"

text \<open>\<open>main\<close> of \<open>preprocess_data.py\<close>, from the two loaded tables to \<open>final_df\<close>.\<close>

definition preprocess_data ::
  "library \<Rightarrow> book list \<Rightarrow> review list \<Rightarrow> py_error + canonical list" where
  "preprocess_data lib books_df reviews_df =
     (case apply_rows (book_row_of lib (review_data lib reviews_df)) books_df of
        Inl e \<Rightarrow> Inl e
      | Inr rows \<Rightarrow> embed_filter_number create_embedding_text rows)"

section \<open>The vectorized pipeline (\<open>preprocess_data_optimized.py\<close>)\<close>

text \<open>
  One row of the grouped table of \<open>aggregate_reviews_vectorized\<close>, before the
  intermediate columns are dropped: \<open>count\<close> and \<open>mean\<close> of the scores present, the
  maximum of the helpfulness scores, the first three summaries present, cleaned and
  joined, and the first three texts present, cleaned, cut to 200 characters and joined.
  A group is never empty; the maximum of no score is written 0 to keep the function
  total.
\<close>

record grouped =
  g_review_count :: nat
  g_avg_score :: "rat option"
  g_max_helpfulness :: rat
  g_review_summaries :: string
  g_review_texts :: string

definition group_agg :: "library \<Rightarrow> review list \<Rightarrow> grouped" where
  "group_agg lib g =
     \<lparr>g_review_count = length (present (map rv_score g)),
      g_avg_score = py_mean (map rv_score g),
      g_max_helpfulness =
        (case map (\<lambda>r. parse_helpfulness lib (rv_helpfulness r)) g of
           [] \<Rightarrow> 0
         | h # hs \<Rightarrow> fold max hs h),
      g_review_summaries =
        py_join '' '' (map clean_text (take 3 (filter (\<lambda>c. \<not> isna c) (map rv_summary g)))),
      g_review_texts =
        py_join '' ''
          (map (\<lambda>t. take 200 (clean_text t)) (take 3 (filter (\<lambda>c. \<not> isna c) (map rv_text g))))\<rparr>"

text \<open>
  \<open>aggregate_reviews_vectorized\<close>: the table keyed by title, as a map (\<open>groupby\<close>
  leaves out the reviews without a title and the order of the groups plays no part in
  the merge). The columns kept are \<open>(review_count, avg_score, review_summary)\<close>; the
  maximal helpfulness is dropped with the two intermediate texts.
\<close>

definition aggregate_reviews_vectorized ::
  "library \<Rightarrow> review list \<Rightarrow> string \<Rightarrow> (nat \<times> rat option \<times> string) option" where
  "aggregate_reviews_vectorized lib reviews_df t =
     (let g = filter (\<lambda>r. rv_Title r = Str t) reviews_df in
      if g = [] then None
      else
        (let aggregated = group_agg lib g;
             summary = py_strip (g_review_summaries aggregated @ '' '' @ g_review_texts aggregated)
         in Some (g_review_count aggregated, g_avg_score aggregated, summary)))"

text \<open>
  Step 4 of \<open>preprocess_data_optimized.py\<close>: the left merge on \<open>Title\<close> and the three
  \<open>fillna\<close>, or the constant columns when the reviews table is empty.
\<close>

definition review_data_optimized ::
  "library \<Rightarrow> review list \<Rightarrow> cell \<Rightarrow> nat \<times> rat option \<times> string" where
  "review_data_optimized lib reviews_df title =
     (if reviews_df \<noteq> [] then
        (case (case title of NaN \<Rightarrow> None | Str t \<Rightarrow> aggregate_reviews_vectorized lib reviews_df t) of
           None \<Rightarrow> (0, Some 0, [])
         | Some (n, avg, summary) \<Rightarrow> (n, (case avg of None \<Rightarrow> Some 0 | Some a \<Rightarrow> Some a), summary))
      else (0, Some 0, []))"

text \<open>\<open>create_embedding_text\<close> of \<open>preprocess_data_optimized.py\<close>: \<open>parts\<close> grows by
  \<open>extend\<close> with \<open>[x] * n\<close>.\<close>

definition create_embedding_text_optimized :: "book_row \<Rightarrow> py_error + string" where
  "create_embedding_text_optimized row =
     (let parts = [];
          parts = (if title_clean row \<noteq> [] then parts @ replicate 2 (title_clean row) else parts);
          parts = (if description_clean row \<noteq> [] then parts @ replicate 3 (description_clean row)
                   else parts)
      in (case append_joined (authors_parsed row) parts of
            Inl e \<Rightarrow> Inl e
          | Inr parts \<Rightarrow>
              (case append_joined (categories_parsed row) parts of
                 Inl e \<Rightarrow> Inl e
               | Inr parts \<Rightarrow>
                   (let parts =
                      (if book_review_summary row \<noteq> [] then
                         parts @ replicate 2 (book_review_summary row)
                       else parts)
                    in Inr (py_join '' '' parts)))))"

text \<open>
  \<open>books_df.merge\<close> refuses to join a float column with a column of strings: when no
  book has a title, the \<open>Title\<close> column of the books is a column of NaN, and merging it
  with the titles of a grouped table that is not empty raises \<open>ValueError\<close>.
\<close>

definition merge_raises :: "book list \<Rightarrow> review list \<Rightarrow> bool" where
  "merge_raises books_df reviews_df =
     (books_df \<noteq> [] \<and> list_all (\<lambda>b. isna (bk_Title b)) books_df
      \<and> list_ex (\<lambda>r. \<not> isna (rv_Title r)) reviews_df)"

text \<open>\<open>main\<close> of \<open>preprocess_data_optimized.py\<close>. The parsing of step 3 comes before the
  merge in the script; it raises nothing on a cell.\<close>

definition preprocess_data_optimized ::
  "library \<Rightarrow> book list \<Rightarrow> review list \<Rightarrow> py_error + canonical list" where
  "preprocess_data_optimized lib books_df reviews_df =
     (if reviews_df \<noteq> [] \<and> merge_raises books_df reviews_df then Inl ValueError
      else
        (case apply_rows (book_row_of lib (review_data_optimized lib reviews_df)) books_df of
           Inl e \<Rightarrow> Inl e
         | Inr rows \<Rightarrow> embed_filter_number create_embedding_text_optimized rows))"

section \<open>The specification's wording, for comparison with the code\<close>

text \<open>
  The review to select next: from the non-empty list \<open>x # xs\<close>, the first element of
  greatest key, and the other elements in their order.
\<close>

fun extract_max :: "('a \<Rightarrow> rat) \<Rightarrow> 'a \<Rightarrow> 'a list \<Rightarrow> 'a \<times> 'a list" where
  "extract_max key x [] = (x, [])"
| "extract_max key x (y # ys) =
     (case extract_max key y ys of
        (m, rest) \<Rightarrow> if key m \<le> key x then (x, y # ys) else (m, x # rest))"

text \<open>
  The \<open>n\<close> elements of highest key, highest first, ties broken by original order:
  select the first element of greatest key, \<open>n\<close> times.
\<close>

fun spec_top :: "nat \<Rightarrow> ('a \<Rightarrow> rat) \<Rightarrow> 'a list \<Rightarrow> 'a list" where
  "spec_top 0 key xs = []"
| "spec_top (Suc n) key [] = []"
| "spec_top (Suc n) key (x # xs) =
     (case extract_max key x xs of (m, rest) \<Rightarrow> m # spec_top n key rest)"

text \<open>
  What one selected review contributes: its cleaned summary, then the first 200
  characters of its cleaned text if that text is under 500 characters; an empty summary
  or text contributes nothing.
\<close>

definition spec_snippets :: "review \<Rightarrow> string list" where
  "spec_snippets r =
     (if clean_text (rv_summary r) = [] then [] else [clean_text (rv_summary r)])
     @ (if clean_text (rv_text r) = [] \<or> 500 \<le> length (clean_text (rv_text r)) then []
        else [take 200 (clean_text (rv_text r))])"

text \<open>
  The aggregate the specification describes for the reviews of one title: the number of
  reviews, the mean score, and at most 5 snippets of the 3 most helpful reviews joined by
  spaces.
\<close>

definition spec_aggregate :: "library \<Rightarrow> review list \<Rightarrow> aggregate" where
  "spec_aggregate lib rs =
     (if rs = [] then
        \<lparr>review_count = 0, avg_score = Some 0, review_summary = [], top_reviews = []\<rparr>
      else
        \<lparr>review_count = length rs,
         avg_score = py_mean (map rv_score rs),
         review_summary =
           py_join '' ''
             (take 5 (concat (map spec_snippets
                (spec_top 3 (\<lambda>r. helpfulness_score lib (rv_helpfulness r)) rs)))),
         top_reviews =
           take 3 (concat (map spec_snippets
             (spec_top 3 (\<lambda>r. helpfulness_score lib (rv_helpfulness r)) rs)))\<rparr>)"

text \<open>
  The weighted parts of the Feature Compositor: a text field repeated \<open>n\<close> times, a list
  field joined by spaces; an empty field gives no part.
\<close>

definition spec_weighted :: "nat \<Rightarrow> string \<Rightarrow> string list" where
  "spec_weighted n s = (if s = [] then [] else replicate n s)"

definition spec_joined :: "string list \<Rightarrow> string list" where
  "spec_joined xs = (if xs = [] then [] else [py_join '' '' xs])"

definition spec_embedding_text ::
  "string \<Rightarrow> string \<Rightarrow> string list \<Rightarrow> string list \<Rightarrow> string \<Rightarrow> string" where
  "spec_embedding_text t d a c r =
     py_join '' ''
       (spec_weighted 2 t @ spec_weighted 3 d @ spec_joined a @ spec_joined c @ spec_weighted 2 r)"

text \<open>
  A books row is typed as the data model has it when its authors and its categories
  parse to lists of strings; \<open>create_embedding_text\<close> raises \<open>TypeError\<close> on any other
  item.
\<close>

definition parses_to_strings :: "library \<Rightarrow> cell \<Rightarrow> bool" where
  "parses_to_strings lib c =
     (case safe_parse_list lib (of_cell c) of
        Inl e \<Rightarrow> False
      | Inr xs \<Rightarrow> str_items xs \<noteq> None)"

definition typed_book :: "library \<Rightarrow> book \<Rightarrow> bool" where
  "typed_book lib b =
     (parses_to_strings lib (bk_authors b)
      \<and> parses_to_strings lib (bk_categories b))"



section \<open>Synchronizer: vector attachment (\<open>upload_embeddings_supabase_api.py\<close>)\<close>

text \<open>
  A row of the remote \<open>books\<close> table: its position key and its vector column (the other
  columns play no part). A vector is any value \<open>'v\<close>.
\<close>

record 'v remote_row =
  faiss_index :: int
  embedding :: "'v option"

text \<open>
  \<open>table('books').update({'embedding': e}).eq('faiss_index', book_id)\<close>: every row whose
  key equals \<open>book_id\<close> gets the vector.
\<close>

definition update_eq :: "int \<Rightarrow> 'v \<Rightarrow> 'v remote_row list \<Rightarrow> 'v remote_row list" where
  "update_eq book_id e tbl =
     map (\<lambda>r. if faiss_index r = book_id then r\<lparr>embedding := Some e\<rparr> else r) tbl"

text \<open>
  What one \<open>execute()\<close> does is the environment's choice: it returns after the update,
  or raises after the store has applied the update (the answer was lost), or raises with
  nothing applied. The environment is a function from the number of the call to its
  outcome.
\<close>

datatype outcome = Returned | Raised_after_update | Raised_before_update

text \<open>\<open>embeddings[book_id]\<close>: a negative index counts from the end, an index out of range
  raises \<open>IndexError\<close>.\<close>

definition np_index :: "'v list \<Rightarrow> int \<Rightarrow> py_error + 'v" where
  "np_index xs i =
     (if 0 \<le> i \<and> i < int (length xs) then Inr (xs ! nat i)
      else if i < 0 \<and> - int (length xs) \<le> i then Inr (xs ! nat (int (length xs) + i))
      else Inl IndexError)"

text \<open>The state of the upload loop: the remote table, the number of \<open>execute()\<close> calls made
  so far, and the two counters of \<open>main\<close>.\<close>

record 'v sync_state =
  remote :: "'v remote_row list"
  calls :: nat
  total_updated :: nat
  failed :: nat

text \<open>
  The loop \<open>for attempt in range(2)\<close>: a call that returns counts one update and breaks;
  a call that raises counts one failure on the second attempt only, and the loop goes on.
\<close>

fun attempts ::
  "(nat \<Rightarrow> outcome) \<Rightarrow> int \<Rightarrow> 'v \<Rightarrow> nat list \<Rightarrow> 'v sync_state \<Rightarrow> 'v sync_state" where
  "attempts env book_id e [] s = s"
| "attempts env book_id e (attempt # rest) s =
     (case env (calls s) of
        Returned \<Rightarrow>
          s\<lparr>remote := update_eq book_id e (remote s),
            calls := calls s + 1,
            total_updated := total_updated s + 1\<rparr>
      | Raised_after_update \<Rightarrow>
          attempts env book_id e rest
            (s\<lparr>remote := update_eq book_id e (remote s),
               calls := calls s + 1,
               failed := (if attempt = 1 then failed s + 1 else failed s)\<rparr>)
      | Raised_before_update \<Rightarrow>
          attempts env book_id e rest
            (s\<lparr>calls := calls s + 1,
               failed := (if attempt = 1 then failed s + 1 else failed s)\<rparr>))"

text \<open>The body of the loop over the rows of a batch; the outer \<open>except\<close> counts a failure
  when the vector cannot be read.\<close>

definition upload_row ::
  "(nat \<Rightarrow> outcome) \<Rightarrow> 'v list \<Rightarrow> int \<Rightarrow> 'v sync_state \<Rightarrow> 'v sync_state" where
  "upload_row env embeddings book_id s =
     (case np_index embeddings book_id of
        Inl e \<Rightarrow> s\<lparr>failed := failed s + 1\<rparr>
      | Inr e \<Rightarrow> attempts env book_id e [0, 1] s)"

text \<open>\<open>books_df.iloc[i:i+batch_size]\<close> for \<open>i\<close> in \<open>range(0, len(books_df), batch_size)\<close>.\<close>

function batches :: "nat \<Rightarrow> 'a list \<Rightarrow> 'a list list" where
  "batches n xs = (if n = 0 \<or> xs = [] then [] else take n xs # batches n (drop n xs))"
  by pat_completeness auto
termination
  by (relation "measure (\<lambda>(n, xs). length xs)") auto

text \<open>
  Step 4 of \<open>main\<close>: the ids of \<open>books_clean.csv\<close> in batches of 10, each id uploaded in
  turn, from a state with no call made and both counters at 0.
\<close>

definition upload_embeddings ::
  "(nat \<Rightarrow> outcome) \<Rightarrow> 'v list \<Rightarrow> int list \<Rightarrow> 'v remote_row list \<Rightarrow> 'v sync_state" where
  "upload_embeddings env embeddings ids tbl =
     fold (\<lambda>batch s. fold (upload_row env embeddings) batch s) (batches 10 ids)
       \<lparr>remote = tbl, calls = 0, total_updated = 0, failed = 0\<rparr>"

text \<open>
  The table in which the rows with a key in \<open>K\<close> hold the vector of their key, where
  there is one, and every other row is as it was.
\<close>

definition attached :: "'v list \<Rightarrow> int set \<Rightarrow> 'v remote_row list \<Rightarrow> 'v remote_row list" where
  "attached embeddings K tbl =
     map (\<lambda>r. if faiss_index r \<in> K then
                 (case np_index embeddings (faiss_index r) of
                    Inl e \<Rightarrow> r
                  | Inr e \<Rightarrow> r\<lparr>embedding := Some e\<rparr>)
               else r) tbl"

section \<open>Example inputs\<close>

text \<open>One book with two reviews, the second more helpful than the first.\<close>

definition example_book :: book where
  "example_book =
     \<lparr>bk_Title = Str ''Foo'', bk_description = NaN, bk_authors = NaN, bk_categories = NaN\<rparr>"

definition example_reviews :: "review list" where
  "example_reviews =
     [\<lparr>rv_Title = Str ''Foo'', rv_score = Some 5, rv_helpfulness = Str ''1/2'',
       rv_summary = Str ''A'', rv_text = Str ''x''\<rparr>,
      \<lparr>rv_Title = Str ''Foo'', rv_score = Some 4, rv_helpfulness = Str ''2/2'',
       rv_summary = Str ''B'', rv_text = Str ''y''\<rparr>]"

text \<open>
  The scenario of the specification: a book without description or review, a book without
  title, and a book whose only text is one review.
\<close>

definition scenario_books :: "book list" where
  "scenario_books =
     [\<lparr>bk_Title = Str ''Dune'', bk_description = Str [], bk_authors = NaN, bk_categories = NaN\<rparr>,
      \<lparr>bk_Title = Str [], bk_description = Str ''desc'', bk_authors = NaN, bk_categories = NaN\<rparr>,
      \<lparr>bk_Title = Str ''Foo'', bk_description = Str [], bk_authors = Str ''Ann Lee'',
       bk_categories = NaN\<rparr>]"

definition scenario_reviews :: "review list" where
  "scenario_reviews =
     [\<lparr>rv_Title = Str ''Foo'', rv_score = Some 5, rv_helpfulness = Str ''10/10'',
       rv_summary = Str ''Great'', rv_text = NaN\<rparr>]"



text \<open>
  A remote table of three rows, the last with a key no record has, and an environment in
  which the first call raises with nothing applied and every later call returns.
\<close>

definition example_table :: "string remote_row list" where
  "example_table =
     [\<lparr>faiss_index = 0, embedding = None\<rparr>,
      \<lparr>faiss_index = 1, embedding = Some ''old''\<rparr>,
      \<lparr>faiss_index = 7, embedding = None\<rparr>]"

definition example_env :: "nat \<Rightarrow> outcome" where
  "example_env n = (if n = 0 then Raised_before_update else Returned)"

section \<open>Helpfulness scores of malformed strings\<close>

lemma py_split_on_not_Nil: "py_split_on d s \<noteq> []"
  by (induction s) (auto split: list.splits)

text \<open>
  Claim C4. A malformed helpfulness string (no \<open>/\<close>, a numerator or denominator that is
  not an integer, or the denominator 0, as in \<open>3/0\<close>) has the helpfulness score 0, in the
  row-at-a-time aggregation and in the vectorized one, whatever \<open>int\<close> accepts and
  whatever the division returns.
\<close>

theorem malformed_helpfulness_is_zero:
  assumes "malformed (lib_int lib) s"
  shows "helpfulness_score lib (Str s) = 0 \<and> parse_helpfulness lib (Str s) = 0"
proof -
  have row: "helpfulness_score lib (Str s) = 0"
  proof (cases "py_split_on (CHR ''/'') s")
    case Nil
    then show ?thesis by (simp add: helpfulness_score_def)
  next
    case (Cons p0 ps)
    show ?thesis
    proof (cases ps)
      case Nil
      with Cons show ?thesis by (simp add: helpfulness_score_def)
    next
      case (Cons p1 rest)
      with \<open>py_split_on (CHR ''/'') s = p0 # ps\<close> assms show ?thesis
        by (auto simp: helpfulness_score_def malformed_def split: option.splits)
    qed
  qed
  have same: "parse_helpfulness lib (Str s) = (if s = [] then 0 else helpfulness_score lib (Str s))"
    by (simp add: parse_helpfulness_def helpfulness_score_def)
  from row same show ?thesis by simp
qed

theorem malformed_helpfulness_is_zero_witness:
  "malformed py_int ''3/0''
     \<and> helpfulness_score (example_lib (\<lambda>s. None)) (Str ''3/0'') = 0
     \<and> parse_helpfulness (example_lib (\<lambda>s. None)) (Str ''3/0'') = 0"
proof -
  have m: "malformed (lib_int (example_lib (\<lambda>s. None))) ''3/0''"
    by (simp add: malformed_def example_lib_def py_int_def is_int_space_def parse_unsigned_def
        is_digit_def digit_val_def)
  from m malformed_helpfulness_is_zero [OF m] show ?thesis
    by (simp add: example_lib_def)
qed

section \<open>Review aggregation against its specification\<close>

lemma sort_key_extract_max:
  "sort_key (\<lambda>x. - key x) (x # xs) =
     (case extract_max key x xs of (m, rest) \<Rightarrow> m # sort_key (\<lambda>x. - key x) rest)"
proof (induction key x xs rule: extract_max.induct)
  case (1 key x)
  show ?case by simp
next
  case (2 key x y ys)
  obtain m rest where mr: "extract_max key y ys = (m, rest)"
    by (cases "extract_max key y ys")
  with 2 have ih: "sort_key (\<lambda>x. - key x) (y # ys) = m # sort_key (\<lambda>x. - key x) rest"
    by simp
  have "sort_key (\<lambda>x. - key x) (x # y # ys)
        = insort_key (\<lambda>x. - key x) x (m # sort_key (\<lambda>x. - key x) rest)"
    using ih by simp
  also have "\<dots> = (if key m \<le> key x then x # m # sort_key (\<lambda>x. - key x) rest
                     else m # sort_key (\<lambda>x. - key x) (x # rest))"
    by simp
  finally show ?case using mr ih by simp
qed

lemma spec_top_nlargest: "spec_top n key xs = nlargest n key xs"
proof (induction n key xs rule: spec_top.induct)
  case (1 key xs)
  show ?case by (simp add: nlargest_def)
next
  case (2 n key)
  show ?case by (simp add: nlargest_def)
next
  case (3 n key x xs)
  obtain m rest where mr: "extract_max key x xs = (m, rest)"
    by (cases "extract_max key x xs")
  with 3 have "spec_top n key rest = nlargest n key rest" by simp
  with mr show ?case
    using sort_key_extract_max [of key x xs] by (simp add: nlargest_def)
qed

lemma collect_texts_snippets:
  "collect_texts acc rs = acc @ concat (map spec_snippets rs)"
  by (induction rs arbitrary: acc) (auto simp: spec_snippets_def Let_def)

lemma map_insort_key:
  assumes "\<forall>y\<in>set (x # ys). k y = k' (h y)"
  shows "map h (insort_key k x ys) = insort_key k' (h x) (map h ys)"
  using assms by (induction ys) auto

lemma map_sort_key:
  assumes "\<forall>y\<in>set xs. k y = k' (h y)"
  shows "map h (sort_key k xs) = sort_key k' (map h xs)"
  using assms
proof (induction xs)
  case Nil
  show ?case by simp
next
  case (Cons x xs)
  then have ih: "map h (sort_key k xs) = sort_key k' (map h xs)" by simp
  have "\<forall>y\<in>set (x # sort_key k xs). k y = k' (h y)" using Cons.prems by simp
  then have "map h (insort_key k x (sort_key k xs)) = insort_key k' (h x) (map h (sort_key k xs))"
    by (rule map_insort_key)
  with ih show ?case by simp
qed

lemma nlargest_scored:
  "map fst (nlargest n snd (map (\<lambda>r. (r, f r)) rs)) = nlargest n f rs"
proof -
  have "map fst (sort_key (\<lambda>p. - snd p) (map (\<lambda>r. (r, f r)) rs))
        = sort_key (\<lambda>r. - f r) (map fst (map (\<lambda>r. (r, f r)) rs))"
    by (rule map_sort_key) auto
  also have "map fst (map (\<lambda>r. (r, f r)) rs) = rs"
    by (simp add: comp_def)
  finally show ?thesis by (simp add: nlargest_def flip: take_map)
qed

text \<open>
  Claim C5. For the reviews of a title, \<open>aggregate_reviews\<close> returns the aggregate of the
  specification: for no review, the count 0, the average 0.0, the empty summary and no
  top reviews; otherwise the number of reviews, the mean of the scores present, and the summary
  joining at most 5 snippets of the 3 reviews of highest helpfulness (selected highest
  first, the earlier review first on a tie), each review giving its cleaned summary and
  then, only if its cleaned text is under 500 characters, the first 200 characters of
  that text. The two loops and \<open>nlargest\<close> of the code are compared with the selection
  \<^const>\<open>spec_top\<close> and the snippets \<^const>\<open>spec_snippets\<close>.
\<close>

theorem aggregate_reviews_meets_spec:
  "aggregate_reviews lib reviews_df title
     = spec_aggregate lib (filter (\<lambda>r. cell_eq (rv_Title r) title) reviews_df)"
proof (cases "filter (\<lambda>r. cell_eq (rv_Title r) title) reviews_df = []")
  case True
  then show ?thesis by (simp add: aggregate_reviews_def spec_aggregate_def)
next
  case False
  then show ?thesis
    by (simp add: aggregate_reviews_def spec_aggregate_def Let_def nlargest_scored
        collect_texts_snippets spec_top_nlargest del: map_map)
qed

theorem aggregate_reviews_meets_spec_witness:
  "aggregate_reviews (example_lib (\<lambda>s. None)) example_reviews (Str ''Foo'')
     = \<lparr>review_count = 2, avg_score = Some (9 / 2), review_summary = ''B y A x'',
        top_reviews = [''B'', ''y'', ''A'']\<rparr>"
proof -
  have "spec_aggregate (example_lib (\<lambda>s. None)) (filter (\<lambda>r. cell_eq (rv_Title r) (Str ''Foo'')) example_reviews)
     = \<lparr>review_count = 2, avg_score = Some (9 / 2), review_summary = ''B y A x'',
        top_reviews = [''B'', ''y'', ''A'']\<rparr>"
    by code_simp
  with aggregate_reviews_meets_spec [of "example_lib (\<lambda>s. None)" example_reviews "Str ''Foo''"]
  show ?thesis by simp
qed

section \<open>The embedding text\<close>

lemma is_space_blank: "is_space (CHR '' '')"
  by (simp add: is_space_def)

lemma split_ws_append_space:
  assumes "is_space c"
  shows "split_ws cur (xs @ c # ys) = split_ws cur xs @ split_ws [] ys"
  using assms by (induction xs arbitrary: cur) auto

lemma py_split_join: "py_split (py_join '' '' ps) = concat (map py_split ps)"
proof (induction "'' ''" ps rule: py_join.induct)
  case 1
  show ?case by (simp add: py_split_def)
next
  case (2 x)
  show ?case by simp
next
  case (3 x y ys)
  have "py_split (py_join '' '' (x # y # ys)) = split_ws [] (x @ CHR '' '' # py_join '' '' (y # ys))"
    by (simp add: py_split_def)
  also have "\<dots> = split_ws [] x @ split_ws [] (py_join '' '' (y # ys))"
    by (rule split_ws_append_space) (rule is_space_blank)
  finally show ?case using 3 by (simp add: py_split_def)
qed

lemma tokens_weighted:
  "concat (map py_split (spec_weighted n s)) = concat (replicate n (py_split s))"
  by (induction n) (auto simp: spec_weighted_def py_split_def)

lemma tokens_joined: "concat (map py_split (spec_joined xs)) = concat (map py_split xs)"
  by (simp add: spec_joined_def py_split_join)

lemma spec_embedding_text_tokens:
  "py_split (spec_embedding_text t d a c r)
     = concat (replicate 2 (py_split t)) @ concat (replicate 3 (py_split d))
       @ concat (map py_split a) @ concat (map py_split c) @ concat (replicate 2 (py_split r))"
  unfolding spec_embedding_text_def py_split_join map_append concat_append
    tokens_weighted tokens_joined ..

lemma str_items_Nil: "str_items xs = Some ss \<Longrightarrow> (ss = []) = (xs = [])"
  by (induction xs arbitrary: ss rule: str_items.induct) auto

lemma append_joined_strings:
  assumes "str_items xs = Some ss"
  shows "append_joined xs parts = Inr (parts @ spec_joined ss)"
  using assms str_items_Nil [OF assms]
  by (auto simp: append_joined_def join_items_def spec_joined_def)

lemma create_embedding_text_spec:
  assumes "str_items (authors_parsed row) = Some a"
    and "str_items (categories_parsed row) = Some c"
  shows "create_embedding_text row
     = Inr (spec_embedding_text (title_clean row) (description_clean row) a c
              (book_review_summary row))"
  by (simp add: create_embedding_text_def Let_def append_joined_strings [OF assms(1)]
      append_joined_strings [OF assms(2)] spec_embedding_text_def spec_weighted_def
      numeral_2_eq_2 numeral_3_eq_3)

lemma create_embedding_text_optimized_spec:
  assumes "str_items (authors_parsed row) = Some a"
    and "str_items (categories_parsed row) = Some c"
  shows "create_embedding_text_optimized row
     = Inr (spec_embedding_text (title_clean row) (description_clean row) a c
              (book_review_summary row))"
  by (simp add: create_embedding_text_optimized_def Let_def append_joined_strings [OF assms(1)]
      append_joined_strings [OF assms(2)] spec_embedding_text_def spec_weighted_def)

text \<open>
  Claim C6. For a row whose authors and categories are lists of strings, both versions
  of \<open>create_embedding_text\<close> return the space-join of the cleaned title twice, the
  cleaned description three times, the joined authors, the joined categories and the
  review summary twice, in this order, an empty field giving no part. Read as tokens,
  the text is exactly the tokens of these fields with these repetitions, so a field
  without tokens contributes none.
\<close>

theorem embedding_text_composition:
  assumes "str_items (authors_parsed row) = Some a"
    and "str_items (categories_parsed row) = Some c"
  shows "create_embedding_text row
           = Inr (spec_embedding_text (title_clean row) (description_clean row) a c
                    (book_review_summary row))
       \<and> create_embedding_text_optimized row
           = Inr (spec_embedding_text (title_clean row) (description_clean row) a c
                    (book_review_summary row))
       \<and> py_split (spec_embedding_text (title_clean row) (description_clean row) a c
                    (book_review_summary row))
           = concat (replicate 2 (py_split (title_clean row)))
             @ concat (replicate 3 (py_split (description_clean row)))
             @ concat (map py_split a) @ concat (map py_split c)
             @ concat (replicate 2 (py_split (book_review_summary row)))"
  using create_embedding_text_spec [OF assms] create_embedding_text_optimized_spec [OF assms]
    spec_embedding_text_tokens by simp

theorem embedding_text_composition_witness:
  "create_embedding_text
     \<lparr>title_clean = ''Foo'', description_clean = [], authors_parsed = [SStr ''Ann Lee''],
      categories_parsed = [], book_review_count = 1, book_avg_score = Some 5,
      book_review_summary = ''Great''\<rparr>
   = Inr ''Foo Foo Ann Lee Great Great''"
proof -
  have a: "str_items (authors_parsed
     \<lparr>title_clean = ''Foo'', description_clean = [], authors_parsed = [SStr ''Ann Lee''],
      categories_parsed = [], book_review_count = 1, book_avg_score = Some 5,
      book_review_summary = ''Great''\<rparr>) = Some [''Ann Lee'']"
    by simp
  have c: "str_items (categories_parsed
     \<lparr>title_clean = ''Foo'', description_clean = [], authors_parsed = [SStr ''Ann Lee''],
      categories_parsed = [], book_review_count = 1, book_avg_score = Some 5,
      book_review_summary = ''Great''\<rparr>) = Some []"
    by simp
  from embedding_text_composition [OF a c] show ?thesis
    by (simp add: spec_embedding_text_def spec_weighted_def spec_joined_def
        numeral_2_eq_2)
qed

section \<open>The filter and the numbering of the final table\<close>

lemma safe_parse_list_cell:
  "\<exists>xs. safe_parse_list lib (of_cell c) = Inr xs"
  by (cases c) (auto simp: safe_parse_list_def split: option.splits literal.splits)

lemma apply_rows_Inr_iff:
  "apply_rows f xs = Inr ys \<longleftrightarrow> list_all2 (\<lambda>x y. f x = Inr y) xs ys"
proof (induction xs arbitrary: ys)
  case Nil
  show ?case by auto
next
  case (Cons x xs)
  show ?case
  proof (cases "f x")
    case (Inl e)
    then show ?thesis by (auto simp: list_all2_Cons1)
  next
    case (Inr y)
    show ?thesis
    proof (cases "apply_rows f xs")
      case (Inl e)
      with Cons [of "tl ys"] Inr show ?thesis
        by (auto simp: list_all2_Cons1)
    next
      case (Inr zs)
      with Cons \<open>f x = Inr y\<close> show ?thesis
        by (auto simp: list_all2_Cons1)
    qed
  qed
qed











text \<open>
  Where \<open>main\<close> returns a table at all: every book has passed \<open>create_embedding_text\<close>,
  so its authors and categories are lists of strings, and the books table has a row.
\<close>

lemma append_joined_Inr:
  "append_joined xs parts = Inr parts' \<Longrightarrow> str_items xs \<noteq> None"
  by (cases xs) (auto simp: append_joined_def join_items_def split: option.splits)

lemma create_embedding_text_Inr:
  assumes "create_embedding_text row = Inr t"
  shows "str_items (authors_parsed row) \<noteq> None \<and> str_items (categories_parsed row) \<noteq> None"
proof -
  from assms obtain p1 p2 q where "append_joined (authors_parsed row) q = Inr p1"
    "append_joined (categories_parsed row) p1 = Inr p2"
    by (auto simp: create_embedding_text_def Let_def split: sum.splits simp del: py_join.simps)
  then show ?thesis by (auto dest: append_joined_Inr)
qed

lemma book_row_of_Inr:
  assumes "book_row_of lib rd b = Inr row"
  shows "safe_parse_list lib (of_cell (bk_authors b)) = Inr (authors_parsed row)
       \<and> safe_parse_list lib (of_cell (bk_categories b)) = Inr (categories_parsed row)"
  using assms by (auto simp: book_row_of_def split: sum.splits prod.splits)

lemma list_all2_left:
  "list_all2 P xs ys \<Longrightarrow> x \<in> set xs \<Longrightarrow> \<exists>y\<in>set ys. P x y"
  by (induction rule: list_all2_induct) auto

lemma preprocess_data_Inr_typed:
  assumes "preprocess_data lib books_df reviews_df = Inr out"
  shows "books_df \<noteq> [] \<and> (\<forall>b\<in>set books_df. typed_book lib b)"
proof -
  from assms obtain rows texts where
    rows: "apply_rows (book_row_of lib (review_data lib reviews_df)) books_df = Inr rows"
    and ne: "rows \<noteq> []"
    and texts: "apply_rows create_embedding_text rows = Inr texts"
    by (auto simp: preprocess_data_def embed_filter_number_def split: sum.splits if_splits)
  from rows have r2: "list_all2 (\<lambda>b row. book_row_of lib (review_data lib reviews_df) b = Inr row)
      books_df rows"
    by (simp add: apply_rows_Inr_iff)
  from texts have t2: "list_all2 (\<lambda>row t. create_embedding_text row = Inr t) rows texts"
    by (simp add: apply_rows_Inr_iff)
  from r2 ne have "books_df \<noteq> []" by auto
  moreover have "typed_book lib b" if "b \<in> set books_df" for b
  proof -
    from list_all2_left [OF r2 that] obtain row where row: "row \<in> set rows"
      "book_row_of lib (review_data lib reviews_df) b = Inr row"
      by blast
    from list_all2_left [OF t2 row(1)] obtain t where "create_embedding_text row = Inr t"
      by blast
    from create_embedding_text_Inr [OF this] book_row_of_Inr [OF row(2)]
    show ?thesis by (simp add: typed_book_def parses_to_strings_def)
  qed
  ultimately show ?thesis by blast
qed




section \<open>The embedding text of a surviving record\<close>

lemma py_join_two:
  "py_join sep (x # y # zs) = x @ sep @ y @ (if zs = [] then [] else sep @ py_join sep zs)"
  by (cases zs) auto

lemma append_joined_extends:
  "append_joined xs parts = Inr parts' \<Longrightarrow> \<exists>more. parts' = parts @ more"
  by (auto simp: append_joined_def split: if_splits sum.splits)

lemma create_embedding_text_title:
  assumes "create_embedding_text r = Inr t" and "title_clean r \<noteq> []"
  shows "\<exists>more. t = py_join '' '' (title_clean r # title_clean r # more)"
proof -
  from assms obtain p1 p2 where
    p1: "append_joined (authors_parsed r)
           ([title_clean r, title_clean r]
            @ (if description_clean r \<noteq> [] then replicate 3 (description_clean r) else []))
         = Inr p1"
    and p2: "append_joined (categories_parsed r) p1 = Inr p2"
    and t: "t = py_join '' '' (p2 @ (if book_review_summary r \<noteq> []
                 then replicate 2 (book_review_summary r) else []))"
    by (auto simp: create_embedding_text_def Let_def numeral_2_eq_2 numeral_3_eq_3
        split: sum.splits if_splits simp del: py_join.simps)
  from append_joined_extends [OF p1] append_joined_extends [OF p2] t
  show ?thesis by (auto simp del: py_join.simps)
qed

lemma create_embedding_text_optimized_title:
  assumes "create_embedding_text_optimized r = Inr t" and "title_clean r \<noteq> []"
  shows "\<exists>more. t = py_join '' '' (title_clean r # title_clean r # more)"
proof -
  from assms obtain p1 p2 where
    p1: "append_joined (authors_parsed r)
           ([title_clean r, title_clean r]
            @ (if description_clean r \<noteq> [] then replicate 3 (description_clean r) else []))
         = Inr p1"
    and p2: "append_joined (categories_parsed r) p1 = Inr p2"
    and t: "t = py_join '' '' (p2 @ (if book_review_summary r \<noteq> []
                 then replicate 2 (book_review_summary r) else []))"
    by (auto simp: create_embedding_text_optimized_def Let_def numeral_2_eq_2 numeral_3_eq_3
        split: sum.splits if_splits simp del: py_join.simps)
  from append_joined_extends [OF p1] append_joined_extends [OF p2] t
  show ?thesis by (auto simp del: py_join.simps)
qed

lemma final_df_member:
  assumes "f \<in> set (final_df ys)"
  shows "\<exists>p\<in>set ys. final_title f = title_clean (fst p) \<and> final_embedding_text f = snd p"
proof -
  from assms obtain i p where "(i, p) \<in> set (zip [0..<length ys] ys)" "f = final_row i p"
    by (auto simp: final_df_def)
  then show ?thesis
    by (auto simp: final_row_def dest: set_zip_rightD)
qed

lemma embed_filter_number_member:
  assumes "embed_filter_number embed_fn rows = Inr out" and "f \<in> set out"
  shows "\<exists>r. keep r \<and> final_title f = title_clean r \<and> embed_fn r = Inr (final_embedding_text f)"
proof -
  from assms(1) obtain texts where texts: "apply_rows embed_fn rows = Inr texts"
    and out: "out = final_df (filter (\<lambda>r. keep (fst r)) (zip rows texts))"
    by (auto simp: embed_filter_number_def split: sum.splits if_splits)
  from assms(2) out final_df_member obtain p where
    p: "p \<in> set (filter (\<lambda>r. keep (fst r)) (zip rows texts))"
    "final_title f = title_clean (fst p)" "final_embedding_text f = snd p"
    by blast
  from texts have "list_all2 (\<lambda>x y. embed_fn x = Inr y) rows texts"
    by (simp add: apply_rows_Inr_iff)
  with p(1) have "embed_fn (fst p) = Inr (snd p)"
    by (auto simp: list_all2_iff)
  with p show ?thesis by auto
qed

text \<open>
  Claim C10. Every record of the final table, of either script, has a non-empty title
  and an embedding text that starts with two copies of the title separated by a space;
  the embedding text of a surviving record is never empty.
\<close>

theorem surviving_text_nonempty:
  assumes "preprocess_data lib books_df reviews_df = Inr out
         \<or> preprocess_data_optimized lib books_df reviews_df = Inr out"
    and "f \<in> set out"
  shows "final_title f \<noteq> []
       \<and> final_embedding_text f \<noteq> []
       \<and> (\<exists>rest. final_embedding_text f = final_title f @ '' '' @ final_title f @ rest)"
proof -
  from assms(1) have "\<exists>more. final_title f \<noteq> []
      \<and> final_embedding_text f = py_join '' '' (final_title f # final_title f # more)"
  proof
    assume "preprocess_data lib books_df reviews_df = Inr out"
    then obtain rows where "embed_filter_number create_embedding_text rows = Inr out"
      by (auto simp: preprocess_data_def split: sum.splits)
    from embed_filter_number_member [OF this assms(2)] obtain r where
      r: "keep r" "final_title f = title_clean r"
      "create_embedding_text r = Inr (final_embedding_text f)"
      by blast
    from r(1) have "title_clean r \<noteq> []" by (simp add: keep_def)
    with create_embedding_text_title [OF r(3)] r(2) show ?thesis by auto
  next
    assume "preprocess_data_optimized lib books_df reviews_df = Inr out"
    then obtain rows where "embed_filter_number create_embedding_text_optimized rows = Inr out"
      by (auto simp: preprocess_data_optimized_def split: sum.splits if_splits)
    from embed_filter_number_member [OF this assms(2)] obtain r where
      r: "keep r" "final_title f = title_clean r"
      "create_embedding_text_optimized r = Inr (final_embedding_text f)"
      by blast
    from r(1) have "title_clean r \<noteq> []" by (simp add: keep_def)
    with create_embedding_text_optimized_title [OF r(3)] r(2) show ?thesis by auto
  qed
  then obtain more where ne: "final_title f \<noteq> []"
    and t: "final_embedding_text f = py_join '' '' (final_title f # final_title f # more)"
    by blast
  from t have "final_embedding_text f
      = final_title f @ '' '' @ final_title f @ (if more = [] then [] else '' '' @ py_join '' '' more)"
    by (simp only: py_join_two)
  with ne show ?thesis by auto
qed

theorem surviving_text_nonempty_witness:
  "\<exists>out f. preprocess_data (example_lib (\<lambda>s. None)) scenario_books scenario_reviews = Inr out
     \<and> f \<in> set out
     \<and> final_title f = ''Foo''
     \<and> final_embedding_text f \<noteq> []
     \<and> (\<exists>rest. final_embedding_text f = final_title f @ '' '' @ final_title f @ rest)"
proof -
  have run: "preprocess_data (example_lib (\<lambda>s. None)) scenario_books scenario_reviews
     = Inr [\<lparr>final_id = 0, final_title = ''Foo'', final_description = [],
             final_authors = [SStr ''Ann Lee''], final_categories = [], final_review_count = 1,
             final_avg_rating = Some 5, final_embedding_text = ''Foo Foo Ann Lee Great Great''\<rparr>]"
    by code_simp
  have mem: "\<lparr>final_id = 0, final_title = ''Foo'', final_description = [],
             final_authors = [SStr ''Ann Lee''], final_categories = [], final_review_count = 1,
             final_avg_rating = Some 5, final_embedding_text = ''Foo Foo Ann Lee Great Great''\<rparr>
     \<in> set [\<lparr>final_id = 0, final_title = ''Foo'', final_description = [],
             final_authors = [SStr ''Ann Lee''], final_categories = [], final_review_count = 1,
             final_avg_rating = Some 5, final_embedding_text = ''Foo Foo Ann Lee Great Great''\<rparr>]"
    by simp
  from surviving_text_nonempty [OF disjI1 [OF run] mem] run mem
  show ?thesis by (intro exI conjI) (assumption | simp)+
qed

section \<open>Idempotence of the vector attachment\<close>

lemma attached_empty: "attached E {} T = T"
  by (simp add: attached_def)

lemma attached_compose: "attached E K2 (attached E K1 T) = attached E (K1 \<union> K2) T"
  by (auto simp: attached_def split: sum.splits)

lemma attached_cong:
  assumes "\<And>k e. np_index E k = Inr e \<Longrightarrow> (k \<in> K) = (k \<in> K')"
  shows "attached E K T = attached E K' T"
  using assms by (auto simp: attached_def split: sum.splits)

lemma update_eq_attached:
  "np_index E k = Inr e \<Longrightarrow> update_eq k e T = attached E {k} T"
  by (simp add: update_eq_def attached_def)

lemma attempts_blind:
  assumes "np_index E k = Inr e"
  shows "\<exists>K. K \<subseteq> {k} \<and> (\<forall>T. attempts env k e as (s\<lparr>remote := T\<rparr>)
                 = (attempts env k e as s)\<lparr>remote := attached E K T\<rparr>)"
proof (induction as arbitrary: s)
  case Nil
  have "\<forall>T. attempts env k e [] (s\<lparr>remote := T\<rparr>)
            = (attempts env k e [] s)\<lparr>remote := attached E {} T\<rparr>"
    by (simp add: attached_empty)
  then show ?case by blast
next
  case (Cons attempt rest)
  show ?case
  proof (cases "env (calls s)")
    case Returned
    then have "\<forall>T. attempts env k e (attempt # rest) (s\<lparr>remote := T\<rparr>)
        = (attempts env k e (attempt # rest) s)\<lparr>remote := attached E {k} T\<rparr>"
      by (cases s) (simp add: update_eq_attached [OF assms])
    then show ?thesis by blast
  next
    case Raised_after_update
    define s' where "s' = s\<lparr>remote := update_eq k e (remote s), calls := calls s + 1,
      failed := (if attempt = 1 then failed s + 1 else failed s)\<rparr>"
    from Cons [of s'] obtain K where sub: "K \<subseteq> {k}" and
      K: "\<And>T. attempts env k e rest (s'\<lparr>remote := T\<rparr>)
             = (attempts env k e rest s')\<lparr>remote := attached E K T\<rparr>"
      by blast
    have "attempts env k e (attempt # rest) (s\<lparr>remote := T\<rparr>)
        = (attempts env k e (attempt # rest) s)\<lparr>remote := attached E ({k} \<union> K) T\<rparr>" for T
    proof -
      have "attempts env k e (attempt # rest) (s\<lparr>remote := T\<rparr>)
          = attempts env k e rest (s'\<lparr>remote := attached E {k} T\<rparr>)"
        using Raised_after_update
        by (cases s) (simp add: s'_def update_eq_attached [OF assms])
      also have "\<dots> = (attempts env k e rest s')\<lparr>remote := attached E K (attached E {k} T)\<rparr>"
        by (rule K)
      also have "attempts env k e rest s' = attempts env k e (attempt # rest) s"
        using Raised_after_update by (simp add: s'_def)
      finally show ?thesis by (simp add: attached_compose)
    qed
    moreover from sub have "{k} \<union> K \<subseteq> {k}" by simp
    ultimately show ?thesis by blast
  next
    case Raised_before_update
    define s' where "s' = s\<lparr>calls := calls s + 1,
      failed := (if attempt = 1 then failed s + 1 else failed s)\<rparr>"
    from Cons [of s'] obtain K where sub: "K \<subseteq> {k}" and
      K: "\<And>T. attempts env k e rest (s'\<lparr>remote := T\<rparr>)
             = (attempts env k e rest s')\<lparr>remote := attached E K T\<rparr>"
      by blast
    have "attempts env k e (attempt # rest) (s\<lparr>remote := T\<rparr>)
        = (attempts env k e (attempt # rest) s)\<lparr>remote := attached E K T\<rparr>" for T
    proof -
      have "attempts env k e (attempt # rest) (s\<lparr>remote := T\<rparr>)
          = attempts env k e rest (s'\<lparr>remote := T\<rparr>)"
        using Raised_before_update by (cases s) (simp add: s'_def)
      also have "\<dots> = (attempts env k e rest s')\<lparr>remote := attached E K T\<rparr>"
        by (rule K)
      also have "attempts env k e rest s' = attempts env k e (attempt # rest) s"
        using Raised_before_update by (simp add: s'_def)
      finally show ?thesis .
    qed
    with sub show ?thesis by blast
  qed
qed

text \<open>One row: the keys written are among \<open>{k}\<close>, and \<open>k\<close> itself is written when every
  call returns and the vector of \<open>k\<close> exists.\<close>

lemma upload_row_blind:
  "\<exists>K. K \<subseteq> {k}
     \<and> ((\<forall>n. env n = Returned) \<longrightarrow> (\<forall>e. np_index E k = Inr e \<longrightarrow> k \<in> K))
     \<and> (\<forall>T. upload_row env E k (s\<lparr>remote := T\<rparr>)
           = (upload_row env E k s)\<lparr>remote := attached E K T\<rparr>)"
proof (cases "np_index E k")
  case (Inl err)
  then have "\<forall>T. upload_row env E k (s\<lparr>remote := T\<rparr>)
           = (upload_row env E k s)\<lparr>remote := attached E {} T\<rparr>"
    by (cases s) (simp add: upload_row_def attached_empty)
  with Inl show ?thesis by (intro exI [of _ "{}"]) simp
next
  case (Inr e)
  show ?thesis
  proof (cases "\<forall>n. env n = Returned")
    case True
    then have "env (calls s) = Returned" by simp
    then have "\<forall>T. upload_row env E k (s\<lparr>remote := T\<rparr>)
           = (upload_row env E k s)\<lparr>remote := attached E {k} T\<rparr>"
      using Inr by (cases s) (simp add: upload_row_def update_eq_attached [OF Inr])
    then show ?thesis by (intro exI [of _ "{k}"]) simp
  next
    case False
    from attempts_blind [OF Inr, of env "[0, 1]" s] obtain K where
      sub: "K \<subseteq> {k}"
      and K: "\<And>T. attempts env k e [0, 1] (s\<lparr>remote := T\<rparr>)
             = (attempts env k e [0, 1] s)\<lparr>remote := attached E K T\<rparr>"
      by blast
    from Inr K have "\<forall>T. upload_row env E k (s\<lparr>remote := T\<rparr>)
           = (upload_row env E k s)\<lparr>remote := attached E K T\<rparr>"
      by (simp add: upload_row_def del: attempts.simps)
    with sub False show ?thesis by blast
  qed
qed

lemma fold_upload_row_blind:
  "\<exists>K. K \<subseteq> set ids
     \<and> ((\<forall>n. env n = Returned) \<longrightarrow> (\<forall>k\<in>set ids. \<forall>e. np_index E k = Inr e \<longrightarrow> k \<in> K))
     \<and> (\<forall>T. fold (upload_row env E) ids (s\<lparr>remote := T\<rparr>)
           = (fold (upload_row env E) ids s)\<lparr>remote := attached E K T\<rparr>)"
proof (induction ids arbitrary: s)
  case Nil
  have "\<forall>T. fold (upload_row env E) [] (s\<lparr>remote := T\<rparr>)
      = (fold (upload_row env E) [] s)\<lparr>remote := attached E {} T\<rparr>"
    by (simp add: attached_empty)
  then show ?case by (intro exI [of _ "{}"]) simp
next
  case (Cons k ids)
  from upload_row_blind [of k env E s] obtain K1 where
    sub1: "K1 \<subseteq> {k}"
    and all1: "(\<forall>n. env n = Returned) \<longrightarrow> (\<forall>e. np_index E k = Inr e \<longrightarrow> k \<in> K1)"
    and K1: "\<And>T. upload_row env E k (s\<lparr>remote := T\<rparr>)
               = (upload_row env E k s)\<lparr>remote := attached E K1 T\<rparr>"
    by blast
  from Cons [of "upload_row env E k s"] obtain K2 where
    sub2: "K2 \<subseteq> set ids"
    and all2: "(\<forall>n. env n = Returned)
       \<longrightarrow> (\<forall>k\<in>set ids. \<forall>e. np_index E k = Inr e \<longrightarrow> k \<in> K2)"
    and K2: "\<And>T. fold (upload_row env E) ids ((upload_row env E k s)\<lparr>remote := T\<rparr>)
       = (fold (upload_row env E) ids (upload_row env E k s))\<lparr>remote := attached E K2 T\<rparr>"
    by blast
  have "fold (upload_row env E) (k # ids) (s\<lparr>remote := T\<rparr>)
      = (fold (upload_row env E) (k # ids) s)\<lparr>remote := attached E (K1 \<union> K2) T\<rparr>" for T
    by (simp add: K1 K2 attached_compose)
  moreover from sub1 sub2 have "K1 \<union> K2 \<subseteq> set (k # ids)" by auto
  moreover from all1 all2 have "(\<forall>n. env n = Returned)
       \<longrightarrow> (\<forall>j\<in>set (k # ids). \<forall>e. np_index E j = Inr e \<longrightarrow> j \<in> K1 \<union> K2)"
    by auto
  ultimately show ?case by blast
qed

lemma concat_batches: "0 < n \<Longrightarrow> concat (batches n xs) = xs"
proof (induction n xs rule: batches.induct)
  case (1 n xs)
  show ?case
  proof (cases "xs = []")
    case True
    then have "batches n xs = []" by (subst batches.simps) simp
    with True show ?thesis by simp
  next
    case False
    with 1 have ih: "concat (batches n (drop n xs)) = drop n xs" by simp
    from False 1(2) have "batches n xs = take n xs # batches n (drop n xs)"
      by (subst batches.simps) simp
    with ih show ?thesis by simp
  qed
qed

lemma fold_batches: "fold (\<lambda>batch s. fold f batch s) xss s = fold f (concat xss) s"
  by (induction xss arbitrary: s) auto

lemma upload_embeddings_fold:
  "upload_embeddings env E ids tbl
     = fold (upload_row env E) ids \<lparr>remote = tbl, calls = 0, total_updated = 0, failed = 0\<rparr>"
proof -
  have "concat (batches 10 ids) = ids" by (rule concat_batches) simp
  then show ?thesis
    unfolding upload_embeddings_def fold_batches by simp
qed

lemma upload_embeddings_attached:
  "\<exists>K. K \<subseteq> set ids
     \<and> ((\<forall>n. env n = Returned) \<longrightarrow> (\<forall>k\<in>set ids. \<forall>e. np_index E k = Inr e \<longrightarrow> k \<in> K))
     \<and> (\<forall>T. remote (upload_embeddings env E ids T) = attached E K T)"
proof -
  define s0 :: "'a sync_state" where
    "s0 = \<lparr>remote = [], calls = 0, total_updated = 0, failed = 0\<rparr>"
  from fold_upload_row_blind [of ids env E s0] obtain K where
    sub: "K \<subseteq> set ids"
    and full: "(\<forall>n. env n = Returned) \<longrightarrow> (\<forall>k\<in>set ids. \<forall>e. np_index E k = Inr e \<longrightarrow> k \<in> K)"
    and K: "\<And>T. fold (upload_row env E) ids (s0\<lparr>remote := T\<rparr>)
           = (fold (upload_row env E) ids s0)\<lparr>remote := attached E K T\<rparr>"
    by blast
  have "remote (upload_embeddings env E ids T) = attached E K T" for T
  proof -
    have "upload_embeddings env E ids T = fold (upload_row env E) ids (s0\<lparr>remote := T\<rparr>)"
      by (simp add: upload_embeddings_fold s0_def)
    also have "\<dots> = (fold (upload_row env E) ids s0)\<lparr>remote := attached E K T\<rparr>"
      by (rule K)
    finally show ?thesis by simp
  qed
  with sub full show ?thesis by blast
qed

text \<open>
  Claim C9. Running the vector attachment a second time with the same embeddings and
  ids leaves every row of the remote table as the first run left it: when the calls of
  both runs have the same outcomes, whatever they are, and also when every call of the
  first run returned and the calls of the second run fail in any way.
\<close>

theorem attachment_idempotent:
  "remote (upload_embeddings env embeddings ids
             (remote (upload_embeddings env embeddings ids tbl)))
     = remote (upload_embeddings env embeddings ids tbl)
   \<and> remote (upload_embeddings env' embeddings ids
             (remote (upload_embeddings (\<lambda>n. Returned) embeddings ids tbl)))
     = remote (upload_embeddings (\<lambda>n. Returned) embeddings ids tbl)"
proof
  from upload_embeddings_attached [of ids env embeddings] obtain K where
    K: "\<And>T. remote (upload_embeddings env embeddings ids T) = attached embeddings K T"
    by blast
  show "remote (upload_embeddings env embeddings ids
             (remote (upload_embeddings env embeddings ids tbl)))
     = remote (upload_embeddings env embeddings ids tbl)"
    by (simp add: K attached_compose)
next
  from upload_embeddings_attached [of ids "\<lambda>n. Returned" embeddings] obtain K1 where
    full: "\<And>k e. k \<in> set ids \<Longrightarrow> np_index embeddings k = Inr e \<Longrightarrow> k \<in> K1"
    and K1: "\<And>T. remote (upload_embeddings (\<lambda>n. Returned) embeddings ids T)
               = attached embeddings K1 T"
    by auto
  from upload_embeddings_attached [of ids env' embeddings] obtain K2 where
    sub: "K2 \<subseteq> set ids"
    and K2: "\<And>T. remote (upload_embeddings env' embeddings ids T) = attached embeddings K2 T"
    by blast
  have "attached embeddings (K1 \<union> K2) tbl = attached embeddings K1 tbl"
    by (rule attached_cong) (use full sub in auto)
  then show "remote (upload_embeddings env' embeddings ids
             (remote (upload_embeddings (\<lambda>n. Returned) embeddings ids tbl)))
     = remote (upload_embeddings (\<lambda>n. Returned) embeddings ids tbl)"
    by (simp add: K1 K2 attached_compose)
qed

theorem attachment_idempotent_witness:
  "remote (upload_embeddings example_env [''u'', ''v''] [0, 1]
             (remote (upload_embeddings example_env [''u'', ''v''] [0, 1] example_table)))
     = [\<lparr>faiss_index = 0, embedding = Some ''u''\<rparr>,
        \<lparr>faiss_index = 1, embedding = Some ''v''\<rparr>,
        \<lparr>faiss_index = 7, embedding = None\<rparr>]"
proof -
  have once: "remote (upload_embeddings example_env [''u'', ''v''] [0, 1] example_table)
     = [\<lparr>faiss_index = 0, embedding = Some ''u''\<rparr>,
        \<lparr>faiss_index = 1, embedding = Some ''v''\<rparr>,
        \<lparr>faiss_index = 7, embedding = None\<rparr>]"
    by code_simp
  from attachment_idempotent [of example_env "[''u'', ''v'']" "[0, 1]" example_table]
  have "remote (upload_embeddings example_env [''u'', ''v''] [0, 1]
             (remote (upload_embeddings example_env [''u'', ''v''] [0, 1] example_table)))
     = remote (upload_embeddings example_env [''u'', ''v''] [0, 1] example_table)"
    by (rule conjunct1)
  with once show ?thesis by simp
qed

section \<open>Where the code departs from the specification\<close>

text \<open>
  Claim C3. \<open>safe_parse_list\<close> is meant to pass a list through, but its first test asks
  for the truth value of \<open>pd.isna(val)\<close>, which for a list of two elements is an array of
  two booleans: the call raises \<open>ValueError\<close> before the \<open>isinstance\<close> test is reached,
  whatever the library does.
\<close>

theorem safe_parse_list_raises_on_list:
  "safe_parse_list lib (PList [SStr ''a'', SStr ''b'']) = Inl ValueError"
  by (simp add: safe_parse_list_def)

text \<open>
  Claim C1. On one book with two reviews the two scripts return different tables: the
  row-at-a-time script orders the reviews by helpfulness and gives summary and text
  review by review, the vectorized script takes the reviews in table order and gives all
  summaries before all texts, so the embedding texts differ.
\<close>

theorem pipelines_differ:
  "preprocess_data (example_lib literal_eval) [example_book] example_reviews
     = Inr [\<lparr>final_id = 0, final_title = ''Foo'', final_description = [], final_authors = [],
             final_categories = [], final_review_count = 2, final_avg_rating = Some (9 / 2),
             final_embedding_text = ''Foo Foo B y A x B y A x''\<rparr>]
   \<and> preprocess_data_optimized (example_lib literal_eval) [example_book] example_reviews
     = Inr [\<lparr>final_id = 0, final_title = ''Foo'', final_description = [], final_authors = [],
             final_categories = [], final_review_count = 2, final_avg_rating = Some (9 / 2),
             final_embedding_text = ''Foo Foo A B x y A B x y''\<rparr>]"
  by code_simp

end
